theory Spec2Isabelle
  imports Complex_Main "HOL-Library.Sublist"
begin

section \<open>Wire types of the billiard client (apiTypes.ts)\<close>

text \<open>
  The TypeScript type \<open>number\<close> is modelled by \<^typ>\<open>real\<close> throughout, and
  \<open>Math.PI\<close> by \<^term>\<open>pi\<close>; the literals of the sample builders
  (\<open>0.0\<close>, \<open>1.0\<close>, \<open>0.5\<close>, \<open>4\<close>, \<open>1e-8\<close>) are read as the decimal numbers
  they spell. An interface is a record with the interface's field names; two interfaces
  that share a field name are told apart by the qualified selector
  (\<open>BoundaryStateDto.s\<close>, \<open>CollisionDto.s\<close>).
\<close>

record Vec2 =
  x :: real
  y :: real

text \<open>
  \<open>SegmentSpec\<close> is a union of two object types discriminated by the field \<open>kind\<close>:
  \<open>Line start end\<close> stands for \<open>{kind: "line", start, end}\<close> and
  \<open>CircularArc center radius start_angle end_angle ccw\<close> for
  \<open>{kind: "circular_arc", center, radius, start_angle, end_angle, ccw}\<close>.
\<close>

datatype SegmentSpec =
    Line Vec2 Vec2
  | CircularArc Vec2 real real real bool

fun kind :: "SegmentSpec \<Rightarrow> string" where
  "kind (Line a b) = ''line''"
| "kind (CircularArc c r a0 a1 w) = ''circular_arc''"

record BoundarySpec =
  name :: string
  segments :: "SegmentSpec list"

record TableSpec =
  outer :: BoundarySpec
  obstacles :: "BoundarySpec list"

record BoundaryStateDto =
  component_index :: real
  s :: real
  theta :: real

record SimulateRequest =
  table :: TableSpec
  initial_state :: BoundaryStateDto
  max_steps :: real
  epsilon :: real

record CollisionDto =
  step :: real
  component_index :: real
  segment_index :: real
  s :: real
  theta :: real
  x :: real
  y :: real

record SimulateResponse =
  collisions :: "CollisionDto list"

record HealthResponse =
  status :: string

subsection \<open>The JSON text the client puts on the wire\<close>

text \<open>
  \<open>runSimulation\<close> sends \<open>JSON.stringify(payload)\<close>. For an object built from the
  interfaces above, \<open>JSON.stringify\<close> writes one member per own property, in
  property order, and recurses into nested objects and arrays. The encoders below are
  that function at each of the declared types.
\<close>

datatype json =
    JNumber real
  | JString string
  | JBool bool
  | JArray "json list"
  | JObject "(string \<times> json) list"

fun json_keys :: "json \<Rightarrow> string list" where
  "json_keys (JObject ms) = map fst ms"
| "json_keys j = []"

fun json_member :: "string \<Rightarrow> json \<Rightarrow> json option" where
  "json_member k (JObject ms) = map_of ms k"
| "json_member k j = None"

definition Vec2_json :: "Vec2 \<Rightarrow> json" where
  "Vec2_json v = JObject [(''x'', JNumber (Vec2.x v)), (''y'', JNumber (Vec2.y v))]"

fun SegmentSpec_json :: "SegmentSpec \<Rightarrow> json" where
  "SegmentSpec_json (Line a b) =
     JObject [(''kind'', JString ''line''), (''start'', Vec2_json a), (''end'', Vec2_json b)]"
| "SegmentSpec_json (CircularArc c r a0 a1 w) =
     JObject [(''kind'', JString ''circular_arc''), (''center'', Vec2_json c),
              (''radius'', JNumber r), (''start_angle'', JNumber a0),
              (''end_angle'', JNumber a1), (''ccw'', JBool w)]"

definition BoundarySpec_json :: "BoundarySpec \<Rightarrow> json" where
  "BoundarySpec_json b =
     JObject [(''name'', JString (BoundarySpec.name b)),
              (''segments'', JArray (map SegmentSpec_json (BoundarySpec.segments b)))]"

definition TableSpec_json :: "TableSpec \<Rightarrow> json" where
  "TableSpec_json t =
     JObject [(''outer'', BoundarySpec_json (TableSpec.outer t)),
              (''obstacles'', JArray (map BoundarySpec_json (TableSpec.obstacles t)))]"

definition BoundaryStateDto_json :: "BoundaryStateDto \<Rightarrow> json" where
  "BoundaryStateDto_json b =
     JObject [(''component_index'', JNumber (BoundaryStateDto.component_index b)),
              (''s'', JNumber (BoundaryStateDto.s b)),
              (''theta'', JNumber (BoundaryStateDto.theta b))]"

definition SimulateRequest_json :: "SimulateRequest \<Rightarrow> json" where
  "SimulateRequest_json r =
     JObject [(''table'', TableSpec_json (SimulateRequest.table r)),
              (''initial_state'', BoundaryStateDto_json (SimulateRequest.initial_state r)),
              (''max_steps'', JNumber (SimulateRequest.max_steps r)),
              (''epsilon'', JNumber (SimulateRequest.epsilon r))]"

definition CollisionDto_json :: "CollisionDto \<Rightarrow> json" where
  "CollisionDto_json c =
     JObject [(''step'', JNumber (CollisionDto.step c)),
              (''component_index'', JNumber (CollisionDto.component_index c)),
              (''segment_index'', JNumber (CollisionDto.segment_index c)),
              (''s'', JNumber (CollisionDto.s c)),
              (''theta'', JNumber (CollisionDto.theta c)),
              (''x'', JNumber (CollisionDto.x c)),
              (''y'', JNumber (CollisionDto.y c))]"

section \<open>The sample builders (samples.ts)\<close>

definition Math_PI :: real where
  "Math_PI = pi"

text \<open>
  \<open>unitSquareBoundary(name: string = "outer")\<close>: the parameter is optional, and a call
  without it takes the default.
\<close>

definition unitSquareBoundary :: "string option \<Rightarrow> BoundarySpec" where
  "unitSquareBoundary name_arg =
     \<lparr>BoundarySpec.name = (case name_arg of None \<Rightarrow> ''outer'' | Some n \<Rightarrow> n),
      segments =
        [Line \<lparr>Vec2.x = 0, y = 0\<rparr> \<lparr>Vec2.x = 1, y = 0\<rparr>,
         Line \<lparr>Vec2.x = 1, y = 0\<rparr> \<lparr>Vec2.x = 1, y = 1\<rparr>,
         Line \<lparr>Vec2.x = 1, y = 1\<rparr> \<lparr>Vec2.x = 0, y = 1\<rparr>,
         Line \<lparr>Vec2.x = 0, y = 1\<rparr> \<lparr>Vec2.x = 0, y = 0\<rparr>]\<rparr>"

definition unitSquareTableSpec :: TableSpec where
  "unitSquareTableSpec =
     \<lparr>TableSpec.outer = unitSquareBoundary (Some ''outer''), obstacles = []\<rparr>"

definition verticalOrbitInitialState :: BoundaryStateDto where
  "verticalOrbitInitialState =
     \<lparr>BoundaryStateDto.component_index = 0, s = 5 / 10, theta = Math_PI / 2\<rparr>"

definition makeUnitSquareSimRequest :: SimulateRequest where
  "makeUnitSquareSimRequest =
     \<lparr>SimulateRequest.table = unitSquareTableSpec,
      initial_state = verticalOrbitInitialState,
      max_steps = 4,
      epsilon = 1 / 10 ^ 8\<rparr>"

section \<open>Geometry of a segment\<close>

text \<open>
  The notions in which section 3 of the spec states the validity of a boundary curve:
  the end points of a segment, and its extent. For a line these are its two fields and
  the Euclidean distance between them. For an arc the end points are the points of the
  circle at \<open>start_angle\<close> and \<open>end_angle\<close>, and the extent is positive when the radius
  is positive and the two angles differ.
\<close>

fun seg_start :: "SegmentSpec \<Rightarrow> Vec2" where
  "seg_start (Line a b) = a"
| "seg_start (CircularArc c r a0 a1 w) =
     \<lparr>Vec2.x = Vec2.x c + r * cos a0, y = Vec2.y c + r * sin a0\<rparr>"

fun seg_end :: "SegmentSpec \<Rightarrow> Vec2" where
  "seg_end (Line a b) = b"
| "seg_end (CircularArc c r a0 a1 w) =
     \<lparr>Vec2.x = Vec2.x c + r * cos a1, y = Vec2.y c + r * sin a1\<rparr>"

definition line_length :: "Vec2 \<Rightarrow> Vec2 \<Rightarrow> real" where
  "line_length a b = sqrt ((Vec2.x b - Vec2.x a)\<^sup>2 + (Vec2.y b - Vec2.y a)\<^sup>2)"

fun positive_extent :: "SegmentSpec \<Rightarrow> bool" where
  "positive_extent (Line a b) = (0 < line_length a b)"
| "positive_extent (CircularArc c r a0 a1 w) = (0 < r \<and> a0 \<noteq> a1)"

fun is_line :: "SegmentSpec \<Rightarrow> bool" where
  "is_line (Line a b) = True"
| "is_line (CircularArc c r a0 a1 w) = False"

text \<open>
  Modelled from the spec: the signed angle an arc sweeps, "from start_angle to end_angle
  in the direction ccw indicates" (section 3); counter-clockwise sweeps are positive,
  clockwise ones negative, and the two angles are taken to lie within one turn of each
  other. The length of an arc is its radius times the size of its sweep.
\<close>

definition arc_sweep :: "real \<Rightarrow> real \<Rightarrow> bool \<Rightarrow> real" where
  "arc_sweep a0 a1 w =
     (if w then (if 0 < a1 - a0 then a1 - a0 else a1 - a0 + 2 * pi)
      else (if a1 - a0 < 0 then a1 - a0 else a1 - a0 - 2 * pi))"

fun seg_length :: "SegmentSpec \<Rightarrow> real" where
  "seg_length (Line a b) = line_length a b"
| "seg_length (CircularArc c r a0 a1 w) = r * \<bar>arc_sweep a0 a1 w\<bar>"

text \<open>
  Consecutive segments are joined end to start; \<open>closed_loop\<close> adds the joint from the
  last segment back to the first.
\<close>

fun chained :: "SegmentSpec list \<Rightarrow> bool" where
  "chained [] = True"
| "chained [a] = True"
| "chained (a # b # rest) = (seg_end a = seg_start b \<and> chained (b # rest))"

definition closed_loop :: "SegmentSpec list \<Rightarrow> bool" where
  "closed_loop segs =
     (case segs of [] \<Rightarrow> False
      | a # rest \<Rightarrow> chained segs \<and> seg_end (last segs) = seg_start a)"

definition valid_boundary :: "BoundarySpec \<Rightarrow> bool" where
  "valid_boundary b =
     (closed_loop (BoundarySpec.segments b) \<and> list_all positive_extent (BoundarySpec.segments b))"

section \<open>The global parameter of a boundary curve\<close>

text \<open>
  Modelled from the spec: \<open>point_at\<close> of section 4.2 (the Rust core that evaluates
  segments is not part of the client sources). A line is interpolated linearly from
  start to end; an arc is \<open>center + radius * unit_vector (angle ls)\<close>, the angle
  running from start_angle over the sweep.
\<close>

fun point_at :: "SegmentSpec \<Rightarrow> real \<Rightarrow> Vec2" where
  "point_at (Line a b) ls =
     \<lparr>Vec2.x = Vec2.x a + ls * (Vec2.x b - Vec2.x a),
      y = Vec2.y a + ls * (Vec2.y b - Vec2.y a)\<rparr>"
| "point_at (CircularArc c r a0 a1 w) ls =
     \<lparr>Vec2.x = Vec2.x c + r * cos (a0 + ls * arc_sweep a0 a1 w),
      y = Vec2.y c + r * sin (a0 + ls * arc_sweep a0 a1 w)\<rparr>"


fun locate_from :: "(SegmentSpec \<Rightarrow> real) \<Rightarrow> nat \<Rightarrow> real \<Rightarrow> SegmentSpec list \<Rightarrow> (nat \<times> real) option" where
  "locate_from wt i u [] = None"
| "locate_from wt i u (sg # rest) =
     (if u < wt sg then Some (i, u / wt sg) else locate_from wt (Suc i) (u - wt sg) rest)"

definition total_weight :: "(SegmentSpec \<Rightarrow> real) \<Rightarrow> BoundarySpec \<Rightarrow> real" where
  "total_weight wt b = sum_list (map wt (BoundarySpec.segments b))"

definition global_to_local :: "(SegmentSpec \<Rightarrow> real) \<Rightarrow> BoundarySpec \<Rightarrow> real \<Rightarrow> (nat \<times> real) option" where
  "global_to_local wt b gs =
     (if gs < 0 \<or> total_weight wt b < gs then None
      else locate_from wt 0 (if gs = total_weight wt b then 0 else gs) (BoundarySpec.segments b))"


definition point_at_global :: "(SegmentSpec \<Rightarrow> real) \<Rightarrow> BoundarySpec \<Rightarrow> real \<Rightarrow> Vec2 option" where
  "point_at_global wt b gs =
     (case global_to_local wt b gs of
        None \<Rightarrow> None
      | Some p \<Rightarrow> Some (point_at (BoundarySpec.segments b ! fst p) (snd p)))"

section \<open>The trajectory engine\<close>

text \<open>
  Modelled from the spec: the vector operations of section 4.1 that the engine uses
  (sum, scaling, dot product, the unit vector of an angle), the specular reflection
  \<open>d - 2 (d . n) n\<close> of section 4.5, step 5, and the error kinds of section 7. The
  Rust core that holds them is not part of the client sources.
\<close>

definition vadd :: "Vec2 \<Rightarrow> Vec2 \<Rightarrow> Vec2" where
  "vadd a b = \<lparr>Vec2.x = Vec2.x a + Vec2.x b, y = Vec2.y a + Vec2.y b\<rparr>"

definition vscale :: "real \<Rightarrow> Vec2 \<Rightarrow> Vec2" where
  "vscale k a = \<lparr>Vec2.x = k * Vec2.x a, y = k * Vec2.y a\<rparr>"

definition vdot :: "Vec2 \<Rightarrow> Vec2 \<Rightarrow> real" where
  "vdot a b = Vec2.x a * Vec2.x b + Vec2.y a * Vec2.y b"

definition unit_vector :: "real \<Rightarrow> Vec2" where
  "unit_vector a = \<lparr>Vec2.x = cos a, y = sin a\<rparr>"

definition reflect :: "Vec2 \<Rightarrow> Vec2 \<Rightarrow> Vec2" where
  "reflect d n = vadd d (vscale (- (2 * vdot d n)) n)"

datatype engine_error = InvalidGeometryError | DegenerateVectorError | NoIntersectionError

text \<open>
  Modelled from the spec: the geometric queries that the step loop of section 4.5 calls
  (the Rust core is not part of the client sources, and the spec does not fix their
  arithmetic): the position of an intrinsic state (step 1), the nearest forward
  intersection of the table, giving distance, component, segment and local parameter
  (step 2), the outward unit normal of a struck segment, which fails on a degenerate
  vector (step 4), the angle of a direction (step 5) and the global parameter of a
  struck point (step 7). They are arguments of the loop.
\<close>

record geometry =
  position_of :: "TableSpec \<Rightarrow> BoundaryStateDto \<Rightarrow> Vec2"
  nearest_forward_intersection :: "TableSpec \<Rightarrow> real \<Rightarrow> Vec2 \<Rightarrow> Vec2 \<Rightarrow> (real \<times> nat \<times> nat \<times> real) option"
  outward_normal :: "TableSpec \<Rightarrow> nat \<Rightarrow> nat \<Rightarrow> real \<Rightarrow> Vec2 option"
  angle_of :: "Vec2 \<Rightarrow> real"
  global_s :: "TableSpec \<Rightarrow> nat \<Rightarrow> nat \<Rightarrow> real \<Rightarrow> real"

text \<open>
  Modelled from the spec: one transition of the trajectory engine (section 4.5, steps 1
  to 7) for the collision with index \<open>k\<close>: it yields the collision record and the next
  intrinsic state, or the fatal error that ends the run.
\<close>

definition engine_step :: "geometry \<Rightarrow> TableSpec \<Rightarrow> real \<Rightarrow> nat \<Rightarrow> BoundaryStateDto
    \<Rightarrow> engine_error + (CollisionDto \<times> BoundaryStateDto)" where
  "engine_step G tbl eps k st =
     (let origin = position_of G tbl st;
          dir = unit_vector (BoundaryStateDto.theta st)
      in case nearest_forward_intersection G tbl eps origin dir of
           None \<Rightarrow> Inl NoIntersectionError
         | Some (tt, ci, si, ls) \<Rightarrow>
             (case outward_normal G tbl ci si ls of
                None \<Rightarrow> Inl DegenerateVectorError
              | Some n \<Rightarrow>
                  (let impact = vadd origin (vscale tt dir);
                       new_theta = angle_of G (reflect dir n)
                   in Inr (\<lparr>CollisionDto.step = real k,
                             component_index = real ci,
                             segment_index = real si,
                             s = ls,
                             theta = new_theta,
                             x = Vec2.x impact,
                             y = Vec2.y impact\<rparr>,
                           \<lparr>BoundaryStateDto.component_index = real ci,
                             s = global_s G tbl ci si ls,
                             theta = new_theta\<rparr>))))"

text \<open>
  Modelled from the spec: the step loop of section 4.5. While the step counter \<open>k\<close> is
  below the budget the engine is Running; it appends the record of step \<open>k\<close> and goes on
  with \<open>k + 1\<close>, and it is Done when the budget is used up or a fatal error occurs, in
  which case the records collected so far are returned with the error (section 7).
\<close>

function engine_loop :: "geometry \<Rightarrow> TableSpec \<Rightarrow> real \<Rightarrow> nat \<Rightarrow> nat \<Rightarrow> BoundaryStateDto
    \<Rightarrow> CollisionDto list \<Rightarrow> engine_error option \<times> CollisionDto list" where
  "engine_loop G tbl eps budget k st acc =
     (if budget \<le> k then (None, acc)
      else case engine_step G tbl eps k st of
             Inl e \<Rightarrow> (Some e, acc)
           | Inr p \<Rightarrow> engine_loop G tbl eps budget (Suc k) (snd p) (acc @ [fst p]))"
  by pat_completeness auto
termination
  by (relation "measure (\<lambda>(G, tbl, eps, budget, k, st, acc). budget - k)") auto

text \<open>
  Modelled from the spec: \<open>simulate\<close> of section 6. The table is validated before any
  stepping (section 7: an invalid boundary aborts the run with no partial result); the
  budget is the request's \<open>max_steps\<close>, a non-negative integer sent as a number.
\<close>

definition simulate :: "geometry \<Rightarrow> SimulateRequest \<Rightarrow> engine_error option \<times> CollisionDto list" where
  "simulate G req =
     (if valid_boundary (TableSpec.outer (SimulateRequest.table req))
         \<and> list_all valid_boundary (TableSpec.obstacles (SimulateRequest.table req))
      then engine_loop G (SimulateRequest.table req) (SimulateRequest.epsilon req)
             (nat \<lfloor>SimulateRequest.max_steps req\<rfloor>) 0 (SimulateRequest.initial_state req) []
      else (Some InvalidGeometryError, []))"


declare engine_loop.simps [simp del]

section \<open>The simulation panel (components/UnitSquareSimulation.tsx)\<close>

text \<open>
  What a \<open>catch\<close> clause can receive: an \<open>Error\<close> object with its message, or any
  other thrown value. An awaited promise is fulfilled with a value, rejected with a
  thrown value (the \<open>await\<close> then throws it), or never settles, in which case the
  function stays suspended at the \<open>await\<close>.
\<close>

datatype js_thrown = ErrorObject string | OtherValue

datatype 'a awaited = Pending | Rejected js_thrown | Fulfilled 'a

text \<open>
  The \<open>Response\<close> that \<open>fetch\<close> resolves to, as far as \<open>runSimulation\<close> reads it:
  \<open>res.ok\<close>, \<open>res.status\<close>, and what \<open>await res.text()\<close> and \<open>await res.json()\<close>
  give (cast to \<open>SimulateResponse\<close> without a check).
\<close>

record Response =
  ok :: bool
  status :: nat
  text_result :: "string awaited"
  json_result :: "SimulateResponse awaited"

text \<open>The decimal digits of a number, as a template literal prints \<open>res.status\<close>.\<close>

fun show_nat :: "nat \<Rightarrow> string" where
  "show_nat n =
     (if n < 10 then [''0123456789'' ! n]
      else show_nat (n div 10) @ [''0123456789'' ! (n mod 10)])"

declare show_nat.simps [simp del]

datatype SimStatus = SimIdle | SimRunning | SimSuccess | SimError

text \<open>The three \<open>useState\<close> cells of the component, and the calls of their setters.\<close>

record sim_hooks =
  status :: SimStatus
  error :: "string option"
  collisions :: "CollisionDto list"

datatype sim_setter =
    SetStatus SimStatus
  | SetError "string option"
  | SetCollisions "CollisionDto list"

fun apply_setter :: "sim_hooks \<Rightarrow> sim_setter \<Rightarrow> sim_hooks" where
  "apply_setter h (SetStatus v) = h\<lparr>sim_hooks.status := v\<rparr>"
| "apply_setter h (SetError v) = h\<lparr>sim_hooks.error := v\<rparr>"
| "apply_setter h (SetCollisions v) = h\<lparr>sim_hooks.collisions := v\<rparr>"

definition initial_hooks :: sim_hooks where
  "initial_hooks = \<lparr>sim_hooks.status = SimIdle, error = None, collisions = []\<rparr>"

text \<open>
  The body of the \<open>try\<close> block of \<open>runSimulation\<close>, given what \<open>await fetch(...)\<close>
  yields: it throws, it runs to its end with the setter calls of the success path, or
  it stays suspended at an \<open>await\<close> that never settles.
\<close>

datatype try_outcome = Thrown js_thrown | Completed "sim_setter list" | Suspended

fun try_body :: "Response awaited \<Rightarrow> try_outcome" where
  "try_body Pending = Suspended"
| "try_body (Rejected e) = Thrown e"
| "try_body (Fulfilled res) =
     (if \<not> Response.ok res then
        (case Response.text_result res of
           Pending \<Rightarrow> Suspended
         | Rejected e \<Rightarrow> Thrown e
         | Fulfilled body \<Rightarrow>
             Thrown (ErrorObject (''HTTP '' @ show_nat (Response.status res) @ '': '' @ body)))
      else
        (case Response.json_result res of
           Pending \<Rightarrow> Suspended
         | Rejected e \<Rightarrow> Thrown e
         | Fulfilled data \<Rightarrow>
             Completed [SetCollisions (SimulateResponse.collisions data), SetStatus SimSuccess]))"

fun catch_message :: "js_thrown \<Rightarrow> string" where
  "catch_message (ErrorObject m) = m"
| "catch_message OtherValue = ''Unknown error during simulation''"

text \<open>
  The setter calls of one run of \<open>runSimulation\<close>, in program order: the three resets
  before the request, then the success path or the \<open>catch\<close> clause.
\<close>

definition runSimulation_calls :: "Response awaited \<Rightarrow> sim_setter list" where
  "runSimulation_calls fetched =
     [SetStatus SimRunning, SetError None, SetCollisions []] @
     (case try_body fetched of
        Suspended \<Rightarrow> []
      | Completed calls \<Rightarrow> calls
      | Thrown e \<Rightarrow> [SetError (Some (catch_message e)), SetStatus SimError])"

definition runSimulation :: "sim_hooks \<Rightarrow> Response awaited \<Rightarrow> sim_hooks" where
  "runSimulation h fetched = foldl apply_setter h (runSimulation_calls fetched)"

text \<open>
  Whether every promise that the run awaits settles, and whether the call failed: the
  request itself failed, the response is not ok, or the body of an ok response could
  not be parsed.
\<close>

fun settles :: "Response awaited \<Rightarrow> bool" where
  "settles Pending = False"
| "settles (Rejected e) = True"
| "settles (Fulfilled res) =
     (if \<not> Response.ok res then Response.text_result res \<noteq> Pending else Response.json_result res \<noteq> Pending)"




text \<open>
  The calls of a run fall into two pieces, and JavaScript runs each piece to its end
  before anything else: the three resets, executed at once when \<open>runSimulation\<close> is
  called, and the success path or the \<open>catch\<close> clause, executed when the awaited
  promises of that run have settled.
\<close>

definition reset_calls :: "sim_setter list" where
  "reset_calls = [SetStatus SimRunning, SetError None, SetCollisions []]"

definition completion_calls :: "Response awaited \<Rightarrow> sim_setter list" where
  "completion_calls fetched =
     (case try_body fetched of
        Suspended \<Rightarrow> []
      | Completed calls \<Rightarrow> calls
      | Thrown e \<Rightarrow> [SetError (Some (catch_message e)), SetStatus SimError])"

text \<open>
  The component over time. \<open>runSimulation\<close> does not look at the status, so a run can
  start whenever it is called, also while earlier runs are still waiting for their
  response; only the rendered button is disabled while the status is "running". The
  state is the three cells and the number of runs in flight. \<open>Start\<close> is a call of
  \<open>runSimulation\<close>; \<open>Settle fetched\<close> is a run in flight resuming with what its
  awaits gave (nothing happens when no run is in flight or the awaits do not settle).
\<close>

datatype panel_event = Start | Settle "Response awaited"

record panel =
  hooks :: sim_hooks
  in_flight :: nat

definition mounted_panel :: panel where
  "mounted_panel = \<lparr>panel.hooks = initial_hooks, in_flight = 0\<rparr>"

fun panel_calls :: "panel \<Rightarrow> panel_event \<Rightarrow> sim_setter list" where
  "panel_calls p Start = reset_calls"
| "panel_calls p (Settle fetched) =
     (if panel.in_flight p = 0 \<or> \<not> settles fetched then [] else completion_calls fetched)"

fun panel_step :: "panel \<Rightarrow> panel_event \<Rightarrow> panel" where
  "panel_step p Start =
     \<lparr>panel.hooks = foldl apply_setter (panel.hooks p) (panel_calls p Start),
      in_flight = Suc (panel.in_flight p)\<rparr>"
| "panel_step p (Settle fetched) =
     (if panel.in_flight p = 0 \<or> \<not> settles fetched then p
      else \<lparr>panel.hooks = foldl apply_setter (panel.hooks p) (panel_calls p (Settle fetched)),
            in_flight = panel.in_flight p - 1\<rparr>)"

definition panel_run :: "panel \<Rightarrow> panel_event list \<Rightarrow> panel" where
  "panel_run p evs = foldl panel_step p evs"

text \<open>Runs do not overlap in a sequence of events when each starts with no run in flight.\<close>

fun sequential :: "panel \<Rightarrow> panel_event list \<Rightarrow> bool" where
  "sequential p [] = True"
| "sequential p (Start # evs) = (panel.in_flight p = 0 \<and> sequential (panel_step p Start) evs)"
| "sequential p (Settle fetched # evs) = sequential (panel_step p (Settle fetched)) evs"

definition hooks_invariant :: "sim_hooks \<Rightarrow> bool" where
  "hooks_invariant h =
     ((sim_hooks.status h = SimError \<longrightarrow> sim_hooks.collisions h = [] \<and> sim_hooks.error h \<noteq> None)
      \<and> (sim_hooks.status h = SimSuccess \<longrightarrow> sim_hooks.error h = None))"

text \<open>
  What holds of the component while runs do not overlap: either no run is in flight and
  the cells satisfy the invariant, or one run is in flight and the cells are as its
  resets left them.
\<close>

definition one_run_at_most :: "panel \<Rightarrow> bool" where
  "one_run_at_most p =
     ((panel.in_flight p = 0 \<and> hooks_invariant (panel.hooks p))
      \<or> (panel.in_flight p = 1
          \<and> panel.hooks p = \<lparr>sim_hooks.status = SimRunning, error = None, collisions = []\<rparr>))"

section \<open>The health indicator (components/HealthStatus.tsx)\<close>

datatype Status = HIdle | HLoading | HSuccess | HError

text \<open>
  One run of the effect: the two \<open>useState\<close> cells, the variable \<open>cancelled\<close> of the
  effect's closure, and the place where \<open>checkHealth\<close> is suspended.
\<close>

datatype health_phase = AwaitingFetch | AwaitingJson | Finished

record health_state =
  status :: Status
  message :: "string option"
  cancelled :: bool
  phase :: health_phase

text \<open>
  What can happen after the effect has started: the promise of \<open>fetch\<close> settles (it
  rejects, or it resolves to a response with \<open>ok\<close> and \<open>status\<close>), the promise of
  \<open>res.json()\<close> settles, or React runs the cleanup function of the effect.
\<close>

datatype health_event =
    FetchRejected js_thrown
  | FetchResponded bool nat
  | JsonRejected js_thrown
  | JsonParsed HealthResponse
  | Cleanup

definition initial_health :: health_state where
  "initial_health =
     \<lparr>health_state.status = HIdle, message = None, cancelled = False, phase = Finished\<rparr>"

text \<open>
  The effect body up to the first \<open>await\<close>: \<open>cancelled = false\<close>, then \<open>checkHealth\<close>
  sets the status to "loading", clears the message and calls \<open>fetch\<close>.
\<close>

definition effect_start :: "health_state \<Rightarrow> health_state" where
  "effect_start h =
     h\<lparr>health_state.cancelled := False, health_state.status := HLoading,
       health_state.message := None, health_state.phase := AwaitingFetch\<rparr>"

fun health_catch_message :: "js_thrown \<Rightarrow> string" where
  "health_catch_message (ErrorObject m) = m"
| "health_catch_message OtherValue = ''Unknown error while calling /health''"

definition catch_clause :: "health_state \<Rightarrow> js_thrown \<Rightarrow> health_state" where
  "catch_clause h e =
     (if \<not> health_state.cancelled h
      then h\<lparr>health_state.status := HError,
             health_state.message := Some (health_catch_message e),
             health_state.phase := Finished\<rparr>
      else h\<lparr>health_state.phase := Finished\<rparr>)"

fun health_step :: "health_state \<Rightarrow> health_event \<Rightarrow> health_state" where
  "health_step h Cleanup = h\<lparr>health_state.cancelled := True\<rparr>"
| "health_step h (FetchRejected e) =
     (if health_state.phase h = AwaitingFetch then catch_clause h e else h)"
| "health_step h (FetchResponded is_ok code) =
     (if health_state.phase h = AwaitingFetch
      then (if \<not> is_ok then catch_clause h (ErrorObject (''HTTP '' @ show_nat code))
            else h\<lparr>health_state.phase := AwaitingJson\<rparr>)
      else h)"
| "health_step h (JsonRejected e) =
     (if health_state.phase h = AwaitingJson then catch_clause h e else h)"
| "health_step h (JsonParsed data) =
     (if health_state.phase h = AwaitingJson
      then (if \<not> health_state.cancelled h
            then h\<lparr>health_state.status := HSuccess,
                   health_state.message := Some (''API status: '' @ HealthResponse.status data),
                   health_state.phase := Finished\<rparr>
            else h\<lparr>health_state.phase := Finished\<rparr>)
      else h)"

definition health_run :: "health_state \<Rightarrow> health_event list \<Rightarrow> health_state" where
  "health_run h evs = foldl health_step h evs"


section \<open>Theorems\<close>

text \<open>
  C2. \<open>makeUnitSquareSimRequest()\<close> returns the unit-square scenario: the outer boundary
  named "outer" is made of four line segments of length one that run
  (0,0) - (1,0) - (1,1) - (0,1) - (0,0), there is no obstacle, the initial state is
  component 0, s = 0.5, theta = pi/2, and the budget is 4 steps with epsilon = 1e-8.
\<close>

theorem makeUnitSquareSimRequest_scenario:
  "makeUnitSquareSimRequest =
     \<lparr>SimulateRequest.table =
        \<lparr>TableSpec.outer =
           \<lparr>BoundarySpec.name = ''outer'',
            segments =
              [Line \<lparr>Vec2.x = 0, y = 0\<rparr> \<lparr>Vec2.x = 1, y = 0\<rparr>,
               Line \<lparr>Vec2.x = 1, y = 0\<rparr> \<lparr>Vec2.x = 1, y = 1\<rparr>,
               Line \<lparr>Vec2.x = 1, y = 1\<rparr> \<lparr>Vec2.x = 0, y = 1\<rparr>,
               Line \<lparr>Vec2.x = 0, y = 1\<rparr> \<lparr>Vec2.x = 0, y = 0\<rparr>]\<rparr>,
         obstacles = []\<rparr>,
      initial_state = \<lparr>BoundaryStateDto.component_index = 0, s = 1 / 2, theta = pi / 2\<rparr>,
      max_steps = 4,
      epsilon = 1 / 100000000\<rparr>
   \<and> map is_line (BoundarySpec.segments (TableSpec.outer (SimulateRequest.table makeUnitSquareSimRequest)))
       = [True, True, True, True]
   \<and> map seg_length (BoundarySpec.segments (TableSpec.outer (SimulateRequest.table makeUnitSquareSimRequest)))
       = [1, 1, 1, 1]
   \<and> closed_loop (BoundarySpec.segments (TableSpec.outer (SimulateRequest.table makeUnitSquareSimRequest)))"
  by (simp add: makeUnitSquareSimRequest_def unitSquareTableSpec_def unitSquareBoundary_def
      verticalOrbitInitialState_def Math_PI_def line_length_def closed_loop_def)

text \<open>
  C1. The wire records have exactly the listed fields. A boundary state is determined by
  component_index, s and theta and is written as an object with exactly these three
  members; a collision record by step, component_index, segment_index, s, theta, x and y;
  a simulation request by table, initial_state, max_steps and epsilon, where the member
  table is the table object (members outer and obstacles) and the member initial_state
  is the boundary-state object, nested one level below the request.
\<close>

theorem wire_record_shapes:
  "b = \<lparr>BoundaryStateDto.component_index = BoundaryStateDto.component_index b,
         s = BoundaryStateDto.s b, theta = BoundaryStateDto.theta b\<rparr>
   \<and> json_keys (BoundaryStateDto_json b) = [''component_index'', ''s'', ''theta'']
   \<and> c = \<lparr>CollisionDto.step = CollisionDto.step c,
           component_index = CollisionDto.component_index c,
           segment_index = CollisionDto.segment_index c,
           s = CollisionDto.s c, theta = CollisionDto.theta c,
           x = CollisionDto.x c, y = CollisionDto.y c\<rparr>
   \<and> json_keys (CollisionDto_json c)
       = [''step'', ''component_index'', ''segment_index'', ''s'', ''theta'', ''x'', ''y'']
   \<and> r = \<lparr>SimulateRequest.table = SimulateRequest.table r,
           initial_state = SimulateRequest.initial_state r,
           max_steps = SimulateRequest.max_steps r,
           epsilon = SimulateRequest.epsilon r\<rparr>
   \<and> json_keys (SimulateRequest_json r) = [''table'', ''initial_state'', ''max_steps'', ''epsilon'']
   \<and> json_member ''table'' (SimulateRequest_json r)
       = Some (TableSpec_json (SimulateRequest.table r))
   \<and> json_keys (TableSpec_json (SimulateRequest.table r)) = [''outer'', ''obstacles'']
   \<and> json_member ''initial_state'' (SimulateRequest_json r)
       = Some (BoundaryStateDto_json (SimulateRequest.initial_state r))
   \<and> json_member ''max_steps'' (SimulateRequest_json r) = Some (JNumber (SimulateRequest.max_steps r))
   \<and> json_member ''epsilon'' (SimulateRequest_json r) = Some (JNumber (SimulateRequest.epsilon r))"
  by (simp add: BoundaryStateDto_json_def CollisionDto_json_def SimulateRequest_json_def
      TableSpec_json_def)

text \<open>
  C4. A segment is one of exactly two variants, told apart by kind. With kind = "line"
  it is written with the members kind, start, end (start and end being points); with
  kind = "circular_arc" it is written with the members kind, center, radius,
  start_angle, end_angle, ccw. There is no third variant.
\<close>

theorem SegmentSpec_two_variants:
  "(\<exists>a b. sg = Line a b \<and> kind sg = ''line''
       \<and> SegmentSpec_json sg
         = JObject [(''kind'', JString ''line''), (''start'', Vec2_json a), (''end'', Vec2_json b)]
       \<and> json_keys (SegmentSpec_json sg) = [''kind'', ''start'', ''end''])
   \<or> (\<exists>c r a0 a1 w. sg = CircularArc c r a0 a1 w \<and> kind sg = ''circular_arc''
       \<and> SegmentSpec_json sg
         = JObject [(''kind'', JString ''circular_arc''), (''center'', Vec2_json c),
                    (''radius'', JNumber r), (''start_angle'', JNumber a0),
                    (''end_angle'', JNumber a1), (''ccw'', JBool w)]
       \<and> json_keys (SegmentSpec_json sg)
         = [''kind'', ''center'', ''radius'', ''start_angle'', ''end_angle'', ''ccw''])"
  by (cases sg) simp_all

text \<open>
  C5. Whatever the name argument (also when it is left out), the boundary returned by
  unitSquareBoundary is a valid boundary curve: the end point of segment i is the start
  point of segment i+1, the end point of the last segment is the start point of the
  first, and every segment has strictly positive length.
\<close>

theorem unitSquareBoundary_valid:
  "valid_boundary (unitSquareBoundary nm)
   \<and> (\<forall>i. Suc i < length (BoundarySpec.segments (unitSquareBoundary nm)) \<longrightarrow>
          seg_end (BoundarySpec.segments (unitSquareBoundary nm) ! i)
          = seg_start (BoundarySpec.segments (unitSquareBoundary nm) ! Suc i))
   \<and> seg_end (last (BoundarySpec.segments (unitSquareBoundary nm)))
       = seg_start (hd (BoundarySpec.segments (unitSquareBoundary nm)))
   \<and> (\<forall>sg \<in> set (BoundarySpec.segments (unitSquareBoundary nm)). 0 < seg_length sg)"
proof -
  let ?segs = "BoundarySpec.segments (unitSquareBoundary nm)"
  have segs: "?segs =
      [Line \<lparr>Vec2.x = 0, y = 0\<rparr> \<lparr>Vec2.x = 1, y = 0\<rparr>,
       Line \<lparr>Vec2.x = 1, y = 0\<rparr> \<lparr>Vec2.x = 1, y = 1\<rparr>,
       Line \<lparr>Vec2.x = 1, y = 1\<rparr> \<lparr>Vec2.x = 0, y = 1\<rparr>,
       Line \<lparr>Vec2.x = 0, y = 1\<rparr> \<lparr>Vec2.x = 0, y = 0\<rparr>]"
    by (simp add: unitSquareBoundary_def)
  have valid: "valid_boundary (unitSquareBoundary nm)"
    by (simp add: valid_boundary_def closed_loop_def segs line_length_def)
  have joints: "\<forall>i. Suc i < length ?segs \<longrightarrow> seg_end (?segs ! i) = seg_start (?segs ! Suc i)"
  proof (intro allI impI)
    fix i assume "Suc i < length ?segs"
    then have "i < 3" by (simp add: segs)
    then consider "i = 0" | "i = 1" | "i = 2" by linarith
    then show "seg_end (?segs ! i) = seg_start (?segs ! Suc i)"
      by cases (simp_all add: segs)
  qed
  have closing: "seg_end (last ?segs) = seg_start (hd ?segs)"
    by (simp add: segs)
  have lengths: "\<forall>sg \<in> set ?segs. 0 < seg_length sg"
    by (simp add: segs line_length_def)
  from valid joints closing lengths show ?thesis by blast
qed

theorem unitSquareBoundary_valid_witness:
  "Suc 2 < length (BoundarySpec.segments (unitSquareBoundary (Some ''wall'')))
   \<and> seg_end (BoundarySpec.segments (unitSquareBoundary (Some ''wall'')) ! 2)
     = seg_start (BoundarySpec.segments (unitSquareBoundary (Some ''wall'')) ! Suc 2)
   \<and> Line \<lparr>Vec2.x = 1, y = 1\<rparr> \<lparr>Vec2.x = 0, y = 1\<rparr>
       \<in> set (BoundarySpec.segments (unitSquareBoundary (Some ''wall'')))
   \<and> 0 < seg_length (Line \<lparr>Vec2.x = 1, y = 1\<rparr> \<lparr>Vec2.x = 0, y = 1\<rparr>)
   \<and> valid_boundary (unitSquareBoundary (Some ''wall''))"
proof -
  have len: "Suc 2 < length (BoundarySpec.segments (unitSquareBoundary (Some ''wall'')))"
    by (simp add: unitSquareBoundary_def)
  have mem: "Line \<lparr>Vec2.x = 1, y = 1\<rparr> \<lparr>Vec2.x = 0, y = 1\<rparr>
       \<in> set (BoundarySpec.segments (unitSquareBoundary (Some ''wall'')))"
    by (simp add: unitSquareBoundary_def)
  from len mem unitSquareBoundary_valid [of "Some ''wall''"] show ?thesis by blast
qed

text \<open>
  The segments of unitSquareBoundary are the same for every name argument; only the name
  field follows the argument, with "outer" when it is left out.
\<close>

lemma unitSquareBoundary_segments_any_name:
  "BoundarySpec.segments (unitSquareBoundary n1) = BoundarySpec.segments (unitSquareBoundary n2)
   \<and> BoundarySpec.name (unitSquareBoundary (Some nm)) = nm
   \<and> BoundarySpec.name (unitSquareBoundary None) = ''outer''
   \<and> unitSquareBoundary n1
       = (unitSquareBoundary n2)\<lparr>BoundarySpec.name := BoundarySpec.name (unitSquareBoundary n1)\<rparr>"
  by (simp add: unitSquareBoundary_def)

subsection \<open>The unit square under the global parameter\<close>

lemma unit_square_segments:
  "BoundarySpec.segments (TableSpec.outer (SimulateRequest.table makeUnitSquareSimRequest)) =
     [Line \<lparr>Vec2.x = 0, y = 0\<rparr> \<lparr>Vec2.x = 1, y = 0\<rparr>,
      Line \<lparr>Vec2.x = 1, y = 0\<rparr> \<lparr>Vec2.x = 1, y = 1\<rparr>,
      Line \<lparr>Vec2.x = 1, y = 1\<rparr> \<lparr>Vec2.x = 0, y = 1\<rparr>,
      Line \<lparr>Vec2.x = 0, y = 1\<rparr> \<lparr>Vec2.x = 0, y = 0\<rparr>]"
  by (simp add: makeUnitSquareSimRequest_def unitSquareTableSpec_def unitSquareBoundary_def)



text \<open>
  The parameter is not the fraction of the perimeter: half of the total weight of the
  unit square is the joint of the right and the top edge, the corner (1, 1).
\<close>

lemma half_of_perimeter_is_corner:
  "total_weight seg_length (TableSpec.outer (SimulateRequest.table makeUnitSquareSimRequest)) = 4
   \<and> point_at_global seg_length (TableSpec.outer (SimulateRequest.table makeUnitSquareSimRequest))
        (1 / 2 * total_weight seg_length
                   (TableSpec.outer (SimulateRequest.table makeUnitSquareSimRequest)))
     = Some \<lparr>Vec2.x = 1, y = 1\<rparr>"
  by (simp add: point_at_global_def global_to_local_def total_weight_def
      unit_square_segments line_length_def)

subsection \<open>The step indices of a run\<close>

lemma engine_step_index:
  "engine_step G tbl eps k st = Inr p \<Longrightarrow> CollisionDto.step (fst p) = real k"
  by (auto simp: engine_step_def Let_def split: option.splits prod.splits)

lemma engine_loop_steps:
  "map CollisionDto.step acc = map real [0..<k] \<Longrightarrow>
   map CollisionDto.step (snd (engine_loop G tbl eps budget k st acc))
   = map real [0..<length (snd (engine_loop G tbl eps budget k st acc))]"
proof (induction G tbl eps budget k st acc rule: engine_loop.induct)
  case (1 G tbl eps budget k st acc)
  have "length (map CollisionDto.step acc) = length (map real [0..<k])"
    using "1.prems" by simp
  then have len: "length acc = k" by simp
  show ?case
  proof (cases "budget \<le> k")
    case True
    then have "engine_loop G tbl eps budget k st acc = (None, acc)"
      by (subst engine_loop.simps) simp
    then show ?thesis using "1.prems" len by simp
  next
    case False
    show ?thesis
    proof (cases "engine_step G tbl eps k st")
      case (Inl e)
      then have "engine_loop G tbl eps budget k st acc = (Some e, acc)"
        using False by (subst engine_loop.simps) simp
      then show ?thesis using "1.prems" len by simp
    next
      case (Inr p)
      have unfold: "engine_loop G tbl eps budget k st acc
          = engine_loop G tbl eps budget (Suc k) (snd p) (acc @ [fst p])"
        using False Inr by (subst engine_loop.simps) simp
      have "map CollisionDto.step (acc @ [fst p]) = map real [0..<Suc k]"
        using "1.prems" engine_step_index [OF Inr] by simp
      from "1.IH" [OF False Inr this] show ?thesis by (simp only: unfold)
    qed
  qed
qed

text \<open>
  C6. In every result of a simulation the step fields of the collision records are
  0, 1, 2, ... in this order, without a gap: the i-th record carries step i. They are
  therefore strictly increasing, and no two records of one result share a step.
\<close>

theorem simulate_step_indices:
  "map CollisionDto.step (snd (simulate G req)) = map real [0..<length (snd (simulate G req))]
   \<and> sorted_wrt (<) (map CollisionDto.step (snd (simulate G req)))
   \<and> distinct (map CollisionDto.step (snd (simulate G req)))"
proof -
  have steps: "map CollisionDto.step (snd (simulate G req))
      = map real [0..<length (snd (simulate G req))]"
    by (simp add: simulate_def engine_loop_steps)
  have "sorted_wrt (<) (map real [0..<length (snd (simulate G req))])"
    by (simp add: sorted_wrt_map)
  moreover have "distinct (map real [0..<length (snd (simulate G req))])"
    by (simp add: distinct_map)
  ultimately show ?thesis using steps by simp
qed

lemma unit_square_request_valid:
  "valid_boundary (TableSpec.outer (SimulateRequest.table makeUnitSquareSimRequest))
   \<and> TableSpec.obstacles (SimulateRequest.table makeUnitSquareSimRequest) = []
   \<and> nat \<lfloor>SimulateRequest.max_steps makeUnitSquareSimRequest\<rfloor> = 4"
  by (simp add: valid_boundary_def closed_loop_def unit_square_segments line_length_def)
     (simp add: makeUnitSquareSimRequest_def unitSquareTableSpec_def)

lemma always_hit_run:
  "length (snd (simulate
      \<lparr>position_of = (\<lambda>tbl st. \<lparr>Vec2.x = 1 / 2, y = 0\<rparr>),
       nearest_forward_intersection = (\<lambda>tbl eps p d. Some (1, 0, 2, 1 / 2)),
       outward_normal = (\<lambda>tbl ci si ls. Some \<lparr>Vec2.x = 0, y = 1\<rparr>),
       angle_of = (\<lambda>v. 0),
       global_s = (\<lambda>tbl ci si ls. ls)\<rparr>
      makeUnitSquareSimRequest)) = 4"
  by (simp add: simulate_def unit_square_request_valid engine_loop.simps engine_step_def Let_def)

text \<open>
  An instance of C6: with queries that report a hit at every step, the run of the sample
  request has four records, and their steps are 0, 1, 2, 3.
\<close>

theorem simulate_step_indices_example:
  "map CollisionDto.step (snd (simulate
      \<lparr>position_of = (\<lambda>tbl st. \<lparr>Vec2.x = 1 / 2, y = 0\<rparr>),
       nearest_forward_intersection = (\<lambda>tbl eps p d. Some (1, 0, 2, 1 / 2)),
       outward_normal = (\<lambda>tbl ci si ls. Some \<lparr>Vec2.x = 0, y = 1\<rparr>),
       angle_of = (\<lambda>v. 0),
       global_s = (\<lambda>tbl ci si ls. ls)\<rparr>
      makeUnitSquareSimRequest)) = [0, 1, 2, 3]"
  using simulate_step_indices [of
      "\<lparr>position_of = (\<lambda>tbl st. \<lparr>Vec2.x = 1 / 2, y = 0\<rparr>),
        nearest_forward_intersection = (\<lambda>tbl eps p d. Some (1, 0, 2, 1 / 2)),
        outward_normal = (\<lambda>tbl ci si ls. Some \<lparr>Vec2.x = 0, y = 1\<rparr>),
        angle_of = (\<lambda>v. 0),
        global_s = (\<lambda>tbl ci si ls. ls)\<rparr>" makeUnitSquareSimRequest]
  by (simp add: always_hit_run upt_conv_Cons)

subsection \<open>One run of runSimulation\<close>





lemma run_suspended:
  "\<not> settles fetched \<Longrightarrow>
   runSimulation h fetched = \<lparr>sim_hooks.status = SimRunning, error = None, collisions = []\<rparr>"
  by (cases fetched)
     (auto simp: runSimulation_def runSimulation_calls_def split: awaited.splits if_splits)






text \<open>
  A non-ok response whose body never arrives keeps the panel in status "running".
\<close>

lemma runSimulation_pending_body:
  "sim_hooks.status
     (runSimulation initial_hooks
       (Fulfilled \<lparr>Response.ok = False, status = 500,
                   text_result = Pending, json_result = Pending\<rparr>))
   = SimRunning"
  by (simp add: run_suspended)

subsection \<open>The states of the simulation panel\<close>

lemma try_body_shape:
  "try_body fetched = Suspended
   \<or> (\<exists>e. try_body fetched = Thrown e)
   \<or> (\<exists>cs. try_body fetched = Completed [SetCollisions cs, SetStatus SimSuccess])"
  by (cases fetched) (auto split: awaited.splits)

lemma settles_not_suspended: "settles fetched \<Longrightarrow> try_body fetched \<noteq> Suspended"
  by (cases fetched) (auto split: awaited.splits if_splits)

lemma calls_split: "runSimulation_calls fetched = reset_calls @ completion_calls fetched"
  by (simp add: runSimulation_calls_def reset_calls_def completion_calls_def)

lemma completion_shape:
  "completion_calls fetched = []
   \<or> (\<exists>m. completion_calls fetched = [SetError (Some m), SetStatus SimError])
   \<or> (\<exists>cs. completion_calls fetched = [SetCollisions cs, SetStatus SimSuccess])"
  using try_body_shape [of fetched] by (auto simp: completion_calls_def)

lemma take_upto_2:
  "take n [a, b] = [] \<or> take n [a, b] = [a] \<or> take n [a, b] = [a, b]"
proof -
  consider "n = 0" | "n = 1" | "2 \<le> n" by linarith
  then show ?thesis by cases (simp_all add: eval_nat_numeral)
qed

lemma take_upto_3:
  "take n [a, b, c] = [] \<or> take n [a, b, c] = [a] \<or> take n [a, b, c] = [a, b]
   \<or> take n [a, b, c] = [a, b, c]"
proof -
  consider "n = 0" | "n = 1" | "n = 2" | "3 \<le> n" by linarith
  then show ?thesis by cases (simp_all add: eval_nat_numeral)
qed

lemma reset_prefix_invariant:
  assumes "hooks_invariant h"
  shows "hooks_invariant (foldl apply_setter h (take n reset_calls))"
  using take_upto_3 [of n "SetStatus SimRunning" "SetError None" "SetCollisions []"] assms
  unfolding reset_calls_def by (auto simp: hooks_invariant_def)

lemma completion_prefix_invariant:
  "hooks_invariant
     (foldl apply_setter \<lparr>sim_hooks.status = SimRunning, error = None, collisions = []\<rparr>
        (take n (completion_calls fetched)))"
proof -
  from completion_shape [of fetched] consider
      (none) "completion_calls fetched = []"
    | (fail) m where "completion_calls fetched = [SetError (Some m), SetStatus SimError]"
    | (succ) cs where "completion_calls fetched = [SetCollisions cs, SetStatus SimSuccess]"
    by blast
  then show ?thesis
  proof cases
    case none
    show ?thesis unfolding none by (simp add: hooks_invariant_def)
  next
    case fail
    from take_upto_2 [of n "SetError (Some m)" "SetStatus SimError"]
    show ?thesis unfolding fail by (auto simp: hooks_invariant_def)
  next
    case succ
    from take_upto_2 [of n "SetCollisions cs" "SetStatus SimSuccess"]
    show ?thesis unfolding succ by (auto simp: hooks_invariant_def)
  qed
qed

lemma one_run_hooks: "one_run_at_most p \<Longrightarrow> hooks_invariant (panel.hooks p)"
  by (auto simp: one_run_at_most_def hooks_invariant_def)

lemma one_run_prefix:
  assumes "one_run_at_most p" and "sequential p [ev]"
  shows "hooks_invariant (foldl apply_setter (panel.hooks p) (take n (panel_calls p ev)))"
proof (cases ev)
  case Start
  with assms have "hooks_invariant (panel.hooks p)" by (simp add: one_run_hooks)
  then show ?thesis using Start by (simp add: reset_prefix_invariant)
next
  case (Settle fetched)
  show ?thesis
  proof (cases "panel.in_flight p = 0 \<or> \<not> settles fetched")
    case True
    then show ?thesis using Settle assms(1) by (simp add: one_run_hooks)
  next
    case False
    with assms(1) have "panel.hooks p
        = \<lparr>sim_hooks.status = SimRunning, error = None, collisions = []\<rparr>"
      by (auto simp: one_run_at_most_def)
    then show ?thesis using Settle False by (simp add: completion_prefix_invariant)
  qed
qed

lemma one_run_step:
  assumes "one_run_at_most p" and "sequential p [ev]"
  shows "one_run_at_most (panel_step p ev)"
proof (cases ev)
  case Start
  with assms have "panel.in_flight p = 0" by simp
  then show ?thesis using Start by (simp add: one_run_at_most_def reset_calls_def)
next
  case (Settle fetched)
  show ?thesis
  proof (cases "panel.in_flight p = 0 \<or> \<not> settles fetched")
    case True
    then show ?thesis using Settle assms(1) by simp
  next
    case False
    with assms(1) have one: "panel.in_flight p = 1" and waiting: "panel.hooks p
        = \<lparr>sim_hooks.status = SimRunning, error = None, collisions = []\<rparr>"
      by (auto simp: one_run_at_most_def)
    from completion_prefix_invariant [of "length (completion_calls fetched)" fetched]
    have "hooks_invariant
        (foldl apply_setter \<lparr>sim_hooks.status = SimRunning, error = None, collisions = []\<rparr>
           (completion_calls fetched))"
      by simp
    then show ?thesis using Settle False one waiting by (simp add: one_run_at_most_def)
  qed
qed

lemma sequential_single: "sequential p (ev # evs) \<Longrightarrow> sequential p [ev]"
  by (cases ev) simp_all

lemma sequential_rest: "sequential p (ev # evs) \<Longrightarrow> sequential (panel_step p ev) evs"
  by (cases ev) (simp_all del: panel_step.simps)

lemma one_run_run:
  "one_run_at_most p \<Longrightarrow> sequential p evs \<Longrightarrow> one_run_at_most (panel_run p evs)"
proof (induction evs arbitrary: p)
  case Nil
  then show ?case by (simp add: panel_run_def)
next
  case (Cons ev evs)
  from one_run_step [OF Cons.prems(1) sequential_single [OF Cons.prems(2)]]
  have "one_run_at_most (panel_step p ev)" .
  from Cons.IH [OF this sequential_rest [OF Cons.prems(2)]]
  show ?case by (simp add: panel_run_def)
qed

lemma sequential_snoc:
  "sequential p (evs @ [ev]) \<Longrightarrow> sequential p evs \<and> sequential (panel_run p evs) [ev]"
proof (induction evs arbitrary: p)
  case Nil
  then show ?case by (simp add: panel_run_def)
next
  case (Cons e evs)
  from Cons.prems have head: "sequential p [e]" and
    rest: "sequential (panel_step p e) (evs @ [ev])"
    by (cases e; simp)+
  from Cons.IH [OF rest] head show ?case
    by (cases e) (simp_all add: panel_run_def)
qed

lemma mounted_one_run: "one_run_at_most mounted_panel"
  by (simp add: one_run_at_most_def mounted_panel_def initial_hooks_def hooks_invariant_def)

text \<open>
  C9, as stated: whenever the status is "error" the collision list would be empty, and
  whenever it is "success" the error would be null. Two overlapping runs break both:
  when the first run succeeds with one collision and the second then fails, the panel
  shows status "error" with that collision still in the list; when the first fails and
  the second then succeeds, it shows status "success" with the error still set.
\<close>

theorem overlapping_runs_break_invariant:
  "panel.hooks
     (panel_run mounted_panel
        [Start, Start,
         Settle (Fulfilled \<lparr>Response.ok = True, status = 200, text_result = Pending,
                   json_result = Fulfilled \<lparr>SimulateResponse.collisions =
                     [\<lparr>CollisionDto.step = 0, component_index = 0, segment_index = 2,
                       s = 1 / 2, theta = - (pi / 2), x = 1 / 2, y = 1\<rparr>]\<rparr>\<rparr>),
         Settle (Rejected (ErrorObject ''Failed to fetch''))])
   = \<lparr>sim_hooks.status = SimError, error = Some ''Failed to fetch'',
      collisions = [\<lparr>CollisionDto.step = 0, component_index = 0, segment_index = 2,
                     s = 1 / 2, theta = - (pi / 2), x = 1 / 2, y = 1\<rparr>]\<rparr>
   \<and> panel.hooks
     (panel_run mounted_panel
        [Start, Start,
         Settle (Rejected (ErrorObject ''Failed to fetch'')),
         Settle (Fulfilled \<lparr>Response.ok = True, status = 200, text_result = Pending,
                   json_result = Fulfilled \<lparr>SimulateResponse.collisions =
                     [\<lparr>CollisionDto.step = 0, component_index = 0, segment_index = 2,
                       s = 1 / 2, theta = - (pi / 2), x = 1 / 2, y = 1\<rparr>]\<rparr>\<rparr>)])
   = \<lparr>sim_hooks.status = SimSuccess, error = Some ''Failed to fetch'',
      collisions = [\<lparr>CollisionDto.step = 0, component_index = 0, segment_index = 2,
                     s = 1 / 2, theta = - (pi / 2), x = 1 / 2, y = 1\<rparr>]\<rparr>"
  by (simp add: panel_run_def mounted_panel_def initial_hooks_def reset_calls_def
      completion_calls_def)

text \<open>
  C9, amended: as long as runs of runSimulation do not overlap (each is started when no
  other run is in flight, which is what the disabled button is for), the component
  keeps the invariant in every state, also between two setter calls: whenever the status
  is "error" the collision list is empty and the error is non-null, and whenever it is
  "success" the error is null. A run clears the collisions and the error before
  fetching, its error branch sets only the error and the status, and its success branch
  sets only the collisions and the status.
\<close>

theorem sequential_runs_keep_invariant:
  assumes "sequential mounted_panel evs"
  shows "(sim_hooks.status (panel.hooks (panel_run mounted_panel evs)) = SimError \<longrightarrow>
            sim_hooks.collisions (panel.hooks (panel_run mounted_panel evs)) = []
            \<and> sim_hooks.error (panel.hooks (panel_run mounted_panel evs)) \<noteq> None)
         \<and> (sim_hooks.status (panel.hooks (panel_run mounted_panel evs)) = SimSuccess \<longrightarrow>
            sim_hooks.error (panel.hooks (panel_run mounted_panel evs)) = None)
         \<and> (\<forall>ev n. sequential mounted_panel (evs @ [ev]) \<longrightarrow>
              hooks_invariant
                (foldl apply_setter (panel.hooks (panel_run mounted_panel evs))
                   (take n (panel_calls (panel_run mounted_panel evs) ev))))
         \<and> runSimulation_calls fetched = reset_calls @ completion_calls fetched
         \<and> reset_calls = [SetStatus SimRunning, SetError None, SetCollisions []]
         \<and> (completion_calls fetched = []
             \<or> (\<exists>m. completion_calls fetched = [SetError (Some m), SetStatus SimError])
             \<or> (\<exists>cs. completion_calls fetched = [SetCollisions cs, SetStatus SimSuccess]))"
proof -
  from one_run_run [OF mounted_one_run assms]
  have disc: "one_run_at_most (panel_run mounted_panel evs)" .
  from one_run_hooks [OF disc]
  have inv: "(sim_hooks.status (panel.hooks (panel_run mounted_panel evs)) = SimError \<longrightarrow>
            sim_hooks.collisions (panel.hooks (panel_run mounted_panel evs)) = []
            \<and> sim_hooks.error (panel.hooks (panel_run mounted_panel evs)) \<noteq> None)
         \<and> (sim_hooks.status (panel.hooks (panel_run mounted_panel evs)) = SimSuccess \<longrightarrow>
            sim_hooks.error (panel.hooks (panel_run mounted_panel evs)) = None)"
    by (simp add: hooks_invariant_def)
  have between: "\<forall>ev n. sequential mounted_panel (evs @ [ev]) \<longrightarrow>
              hooks_invariant
                (foldl apply_setter (panel.hooks (panel_run mounted_panel evs))
                   (take n (panel_calls (panel_run mounted_panel evs) ev)))"
  proof (intro allI impI)
    fix ev n
    assume "sequential mounted_panel (evs @ [ev])"
    from sequential_snoc [OF this]
    have "sequential (panel_run mounted_panel evs) [ev]" by simp
    from one_run_prefix [OF disc this]
    show "hooks_invariant
                (foldl apply_setter (panel.hooks (panel_run mounted_panel evs))
                   (take n (panel_calls (panel_run mounted_panel evs) ev)))" .
  qed
  have pieces: "runSimulation_calls fetched = reset_calls @ completion_calls fetched"
    by (rule calls_split)
  have resets: "reset_calls = [SetStatus SimRunning, SetError None, SetCollisions []]"
    by (simp add: reset_calls_def)
  from inv between pieces resets completion_shape [of fetched] show ?thesis by blast
qed

theorem sequential_runs_keep_invariant_witness:
  "sequential mounted_panel
     [Start,
      Settle (Fulfilled \<lparr>Response.ok = True, status = 200, text_result = Pending,
                json_result = Fulfilled \<lparr>SimulateResponse.collisions =
                  [\<lparr>CollisionDto.step = 0, component_index = 0, segment_index = 2,
                    s = 1 / 2, theta = - (pi / 2), x = 1 / 2, y = 1\<rparr>]\<rparr>\<rparr>),
      Start,
      Settle (Rejected (ErrorObject ''Failed to fetch''))]
   \<and> sim_hooks.status (panel.hooks
     (panel_run mounted_panel
     [Start,
      Settle (Fulfilled \<lparr>Response.ok = True, status = 200, text_result = Pending,
                json_result = Fulfilled \<lparr>SimulateResponse.collisions =
                  [\<lparr>CollisionDto.step = 0, component_index = 0, segment_index = 2,
                    s = 1 / 2, theta = - (pi / 2), x = 1 / 2, y = 1\<rparr>]\<rparr>\<rparr>),
      Start,
      Settle (Rejected (ErrorObject ''Failed to fetch''))])) = SimError
   \<and> sim_hooks.collisions (panel.hooks
     (panel_run mounted_panel
     [Start,
      Settle (Fulfilled \<lparr>Response.ok = True, status = 200, text_result = Pending,
                json_result = Fulfilled \<lparr>SimulateResponse.collisions =
                  [\<lparr>CollisionDto.step = 0, component_index = 0, segment_index = 2,
                    s = 1 / 2, theta = - (pi / 2), x = 1 / 2, y = 1\<rparr>]\<rparr>\<rparr>),
      Start,
      Settle (Rejected (ErrorObject ''Failed to fetch''))])) = []
   \<and> sim_hooks.error (panel.hooks
     (panel_run mounted_panel
     [Start,
      Settle (Fulfilled \<lparr>Response.ok = True, status = 200, text_result = Pending,
                json_result = Fulfilled \<lparr>SimulateResponse.collisions =
                  [\<lparr>CollisionDto.step = 0, component_index = 0, segment_index = 2,
                    s = 1 / 2, theta = - (pi / 2), x = 1 / 2, y = 1\<rparr>]\<rparr>\<rparr>),
      Start,
      Settle (Rejected (ErrorObject ''Failed to fetch''))])) \<noteq> None
   \<and> sequential mounted_panel
     [Start,
      Settle (Rejected (ErrorObject ''Failed to fetch'')),
      Start,
      Settle (Fulfilled \<lparr>Response.ok = True, status = 200, text_result = Pending,
                json_result = Fulfilled \<lparr>SimulateResponse.collisions =
                  [\<lparr>CollisionDto.step = 0, component_index = 0, segment_index = 2,
                    s = 1 / 2, theta = - (pi / 2), x = 1 / 2, y = 1\<rparr>]\<rparr>\<rparr>)]
   \<and> sim_hooks.status (panel.hooks
     (panel_run mounted_panel
     [Start,
      Settle (Rejected (ErrorObject ''Failed to fetch'')),
      Start,
      Settle (Fulfilled \<lparr>Response.ok = True, status = 200, text_result = Pending,
                json_result = Fulfilled \<lparr>SimulateResponse.collisions =
                  [\<lparr>CollisionDto.step = 0, component_index = 0, segment_index = 2,
                    s = 1 / 2, theta = - (pi / 2), x = 1 / 2, y = 1\<rparr>]\<rparr>\<rparr>)])) = SimSuccess
   \<and> sim_hooks.error (panel.hooks
     (panel_run mounted_panel
     [Start,
      Settle (Rejected (ErrorObject ''Failed to fetch'')),
      Start,
      Settle (Fulfilled \<lparr>Response.ok = True, status = 200, text_result = Pending,
                json_result = Fulfilled \<lparr>SimulateResponse.collisions =
                  [\<lparr>CollisionDto.step = 0, component_index = 0, segment_index = 2,
                    s = 1 / 2, theta = - (pi / 2), x = 1 / 2, y = 1\<rparr>]\<rparr>\<rparr>)])) = None
   \<and> sequential mounted_panel
     ([Start,
      Settle (Fulfilled \<lparr>Response.ok = True, status = 200, text_result = Pending,
                json_result = Fulfilled \<lparr>SimulateResponse.collisions =
                  [\<lparr>CollisionDto.step = 0, component_index = 0, segment_index = 2,
                    s = 1 / 2, theta = - (pi / 2), x = 1 / 2, y = 1\<rparr>]\<rparr>\<rparr>)] @ [Start])
   \<and> hooks_invariant
       \<lparr>sim_hooks.status = SimRunning, error = None,
        collisions = [\<lparr>CollisionDto.step = 0, component_index = 0, segment_index = 2,
                    s = 1 / 2, theta = - (pi / 2), x = 1 / 2, y = 1\<rparr>]\<rparr>"
proof -
  let ?c1 = "\<lparr>CollisionDto.step = 0, component_index = 0, segment_index = 2,
                    s = 1 / 2, theta = - (pi / 2), x = 1 / 2, y = 1\<rparr>"
  let ?good = "Settle (Fulfilled \<lparr>Response.ok = True, status = 200, text_result = Pending,
                json_result = Fulfilled \<lparr>SimulateResponse.collisions = [?c1]\<rparr>\<rparr>)"
  let ?bad = "Settle (Rejected (ErrorObject ''Failed to fetch''))"
  have s1: "sequential mounted_panel [Start, ?good, Start, ?bad]"
    by (simp add: mounted_panel_def)
  have s2: "sequential mounted_panel [Start, ?bad, Start, ?good]"
    by (simp add: mounted_panel_def)
  have s3: "sequential mounted_panel [Start, ?good]"
    by (simp add: mounted_panel_def)
  have s3': "sequential mounted_panel ([Start, ?good] @ [Start])"
    by (simp add: mounted_panel_def)
  have st1: "sim_hooks.status (panel.hooks (panel_run mounted_panel [Start, ?good, Start, ?bad]))
      = SimError"
    by (simp add: panel_run_def mounted_panel_def initial_hooks_def reset_calls_def
        completion_calls_def)
  have st2: "sim_hooks.status (panel.hooks (panel_run mounted_panel [Start, ?bad, Start, ?good]))
      = SimSuccess"
    by (simp add: panel_run_def mounted_panel_def initial_hooks_def reset_calls_def
        completion_calls_def)
  have r3: "foldl apply_setter (panel.hooks (panel_run mounted_panel [Start, ?good]))
        (take 1 (panel_calls (panel_run mounted_panel [Start, ?good]) Start))
      = \<lparr>sim_hooks.status = SimRunning, error = None, collisions = [?c1]\<rparr>"
    by (simp add: panel_run_def mounted_panel_def initial_hooks_def reset_calls_def
        completion_calls_def)
  from sequential_runs_keep_invariant [OF s1] st1
  have c1: "sim_hooks.collisions (panel.hooks (panel_run mounted_panel [Start, ?good, Start, ?bad])) = []
      \<and> sim_hooks.error (panel.hooks (panel_run mounted_panel [Start, ?good, Start, ?bad])) \<noteq> None"
    by blast
  from sequential_runs_keep_invariant [OF s2] st2
  have c2: "sim_hooks.error (panel.hooks (panel_run mounted_panel [Start, ?bad, Start, ?good])) = None"
    by blast
  from sequential_runs_keep_invariant [OF s3]
  have "sequential mounted_panel ([Start, ?good] @ [Start]) \<longrightarrow>
      hooks_invariant
        (foldl apply_setter (panel.hooks (panel_run mounted_panel [Start, ?good]))
           (take 1 (panel_calls (panel_run mounted_panel [Start, ?good]) Start)))"
    by blast
  with s3' have c3: "hooks_invariant
      \<lparr>sim_hooks.status = SimRunning, error = None, collisions = [?c1]\<rparr>"
    by (simp only: r3)
  from s1 st1 c1 s2 st2 c2 s3' c3 show ?thesis by blast
qed

subsection \<open>The health indicator after its cleanup\<close>

lemma cancelled_step:
  "health_state.cancelled h \<Longrightarrow>
   health_state.cancelled (health_step h ev)
   \<and> health_state.status (health_step h ev) = health_state.status h
   \<and> health_state.message (health_step h ev) = health_state.message h"
  by (cases ev) (simp_all add: catch_clause_def)

lemma cancelled_run:
  "health_state.cancelled h \<Longrightarrow>
   health_state.cancelled (health_run h evs)
   \<and> health_state.status (health_run h evs) = health_state.status h
   \<and> health_state.message (health_run h evs) = health_state.message h"
proof (induction evs arbitrary: h)
  case Nil
  then show ?case by (simp add: health_run_def)
next
  case (Cons ev evs)
  from cancelled_step [OF Cons.prems, of ev] Cons.IH [of "health_step h ev"]
  show ?case by (simp add: health_run_def)
qed

text \<open>
  C10. Once the cleanup of the effect has run, HealthStatus does not change its status
  or its message any more: whatever happened before the cleanup and whatever happens
  after it (the request fails, the response is not ok, the body parses or does not),
  status and message stay what they were when the cleanup ran, and the flag stays set.
\<close>

theorem health_frozen_after_cleanup:
  "health_state.status (health_run (effect_start h0) (before @ Cleanup # after))
     = health_state.status (health_run (effect_start h0) before)
   \<and> health_state.message (health_run (effect_start h0) (before @ Cleanup # after))
     = health_state.message (health_run (effect_start h0) before)
   \<and> health_state.cancelled (health_run (effect_start h0) (before @ Cleanup # after))"
proof -
  let ?mid = "health_step (health_run (effect_start h0) before) Cleanup"
  have split: "health_run (effect_start h0) (before @ Cleanup # after) = health_run ?mid after"
    by (simp add: health_run_def)
  have "health_state.cancelled ?mid" by simp
  from cancelled_run [OF this, of after] show ?thesis
    by (simp add: split)
qed

text \<open>
  An instance of C10: the component unmounts after the response has arrived and before
  its body is parsed. The indicator stays at "loading" with no message, where without
  the cleanup the same events end in "success".
\<close>

theorem health_frozen_after_cleanup_example:
  "health_state.status
     (health_run (effect_start initial_health)
        ([FetchResponded True 200] @ Cleanup # [JsonParsed \<lparr>HealthResponse.status = ''ok''\<rparr>]))
     = HLoading
   \<and> health_state.message
     (health_run (effect_start initial_health)
        ([FetchResponded True 200] @ Cleanup # [JsonParsed \<lparr>HealthResponse.status = ''ok''\<rparr>]))
     = None
   \<and> health_state.status
     (health_run (effect_start initial_health)
        [FetchResponded True 200, JsonParsed \<lparr>HealthResponse.status = ''ok''\<rparr>])
     = HSuccess
   \<and> health_state.message
     (health_run (effect_start initial_health)
        [FetchResponded True 200, JsonParsed \<lparr>HealthResponse.status = ''ok''\<rparr>])
     = Some ''API status: ok''"
proof -
  have before: "health_run (effect_start initial_health) [FetchResponded True 200]
      = \<lparr>health_state.status = HLoading, message = None, cancelled = False,
         phase = AwaitingJson\<rparr>"
    by (simp add: health_run_def effect_start_def initial_health_def)
  have plain: "health_run (effect_start initial_health)
        [FetchResponded True 200, JsonParsed \<lparr>HealthResponse.status = ''ok''\<rparr>]
      = \<lparr>health_state.status = HSuccess, message = Some ''API status: ok'', cancelled = False,
         phase = Finished\<rparr>"
    by (simp add: health_run_def effect_start_def initial_health_def)
  from health_frozen_after_cleanup [of initial_health "[FetchResponded True 200]"
      "[JsonParsed \<lparr>HealthResponse.status = ''ok''\<rparr>]"]
  show ?thesis by (simp only: before plain) simp
qed

end
